theory Spec2Isabelle
  imports Main
begin

section \<open>Strings\<close>

text \<open>
  A Go string is a sequence of bytes; it is modelled as a \<^typ>\<open>string\<close> (a list of
  8-bit characters). The functions of this section are the functions of Go's packages
  \<^verbatim>\<open>strings\<close> and \<^verbatim>\<open>os\<close> that \<^verbatim>\<open>internal/installer/installer.go\<close> calls, under their Go
  names. They belong to Go's standard library, not to the repository; each is written
  after the documented behaviour of the library function.
\<close>

fun HasPrefix :: "string \<Rightarrow> string \<Rightarrow> bool" where
  "HasPrefix s [] = True"
| "HasPrefix [] (p # ps) = False"
| "HasPrefix (c # cs) (p # ps) = (c = p \<and> HasPrefix cs ps)"

text \<open>\<^verbatim>\<open>strings.Contains(s, substr)\<close>: \<open>substr\<close> occurs somewhere in \<open>s\<close>.\<close>

fun Contains :: "string \<Rightarrow> string \<Rightarrow> bool" where
  "Contains [] sub = (sub = [])"
| "Contains (c # cs) sub = (HasPrefix (c # cs) sub \<or> Contains cs sub)"

definition TrimPrefix :: "string \<Rightarrow> string \<Rightarrow> string" where
  "TrimPrefix s p = (if HasPrefix s p then drop (length p) s else s)"

text \<open>
  \<^verbatim>\<open>unicode.IsSpace\<close> holds of the runes U+0009..U+000D, U+0020, U+0085, U+00A0, U+1680,
  U+2000..U+200A, U+2028, U+2029, U+202F, U+205F and U+3000. \<open>whiteSpace\<close> lists their
  UTF-8 encodings. None of them is a prefix of another, their first bytes are never
  continuation bytes, and no other byte sequence decodes to one of these runes, so a
  white-space rune stands at a position of a Go string exactly when one of these
  encodings starts there (and is the last rune exactly when one of them ends the
  string).
\<close>

definition whiteSpace :: "string list" where
  "whiteSpace =
     [[CHR 0x09], [CHR 0x0A], [CHR 0x0B], [CHR 0x0C], [CHR 0x0D], [CHR 0x20],
      [CHR 0xC2, CHR 0x85], [CHR 0xC2, CHR 0xA0],
      [CHR 0xE1, CHR 0x9A, CHR 0x80],
      [CHR 0xE2, CHR 0x80, CHR 0x80], [CHR 0xE2, CHR 0x80, CHR 0x81],
      [CHR 0xE2, CHR 0x80, CHR 0x82], [CHR 0xE2, CHR 0x80, CHR 0x83],
      [CHR 0xE2, CHR 0x80, CHR 0x84], [CHR 0xE2, CHR 0x80, CHR 0x85],
      [CHR 0xE2, CHR 0x80, CHR 0x86], [CHR 0xE2, CHR 0x80, CHR 0x87],
      [CHR 0xE2, CHR 0x80, CHR 0x88], [CHR 0xE2, CHR 0x80, CHR 0x89],
      [CHR 0xE2, CHR 0x80, CHR 0x8A],
      [CHR 0xE2, CHR 0x80, CHR 0xA8], [CHR 0xE2, CHR 0x80, CHR 0xA9],
      [CHR 0xE2, CHR 0x80, CHR 0xAF], [CHR 0xE2, CHR 0x81, CHR 0x9F],
      [CHR 0xE3, CHR 0x80, CHR 0x80]]"

text \<open>
  \<open>spaceWidth s\<close> is the number of bytes of the white-space rune that starts \<open>s\<close>, and 0
  when \<open>s\<close> is empty or starts with another rune.
\<close>

definition spaceWidth :: "string \<Rightarrow> nat" where
  "spaceWidth s = (case List.find (HasPrefix s) whiteSpace of None \<Rightarrow> 0 | Some w \<Rightarrow> length w)"

function trimLeftSpace :: "string \<Rightarrow> string" where
  "trimLeftSpace s = (if spaceWidth s = 0 then s else trimLeftSpace (drop (spaceWidth s) s))"
  by pat_completeness auto

lemma HasPrefix_length: "HasPrefix s p \<Longrightarrow> length p \<le> length s"
  by (induction s p rule: HasPrefix.induct) auto

lemma spaceWidth_le: "spaceWidth s \<le> length s"
  by (auto simp: spaceWidth_def find_Some_iff HasPrefix_length split: option.splits)

termination trimLeftSpace
proof (relation "measure length")
  show "wf (measure length)" by simp
next
  fix s :: string
  assume "spaceWidth s \<noteq> 0"
  moreover have "spaceWidth s \<le> length s" by (rule spaceWidth_le)
  ultimately show "(drop (spaceWidth s) s, s) \<in> measure length" by simp
qed

declare trimLeftSpace.simps [simp del]

text \<open>
  \<^verbatim>\<open>strings.TrimSpace(s)\<close>: all leading and trailing white space removed. The trailing
  runes are read off the reversed string, against the reversed encodings.
\<close>

definition spaceWidthEnd :: "string \<Rightarrow> nat" where
  "spaceWidthEnd r =
     (case List.find (\<lambda>w. HasPrefix r (rev w)) whiteSpace of None \<Rightarrow> 0 | Some w \<Rightarrow> length w)"

function trimLeftSpaceRev :: "string \<Rightarrow> string" where
  "trimLeftSpaceRev r =
     (if spaceWidthEnd r = 0 then r else trimLeftSpaceRev (drop (spaceWidthEnd r) r))"
  by pat_completeness auto

lemma spaceWidthEnd_le: "spaceWidthEnd r \<le> length r"
proof (cases "List.find (\<lambda>w. HasPrefix r (rev w)) whiteSpace")
  case None
  then show ?thesis by (simp add: spaceWidthEnd_def)
next
  case (Some w)
  then have "HasPrefix r (rev w)" by (auto simp: find_Some_iff)
  then have "length (rev w) \<le> length r" by (rule HasPrefix_length)
  with Some show ?thesis by (simp add: spaceWidthEnd_def)
qed

termination trimLeftSpaceRev
proof (relation "measure length")
  show "wf (measure length)" by simp
next
  fix r :: string
  assume "spaceWidthEnd r \<noteq> 0"
  moreover have "spaceWidthEnd r \<le> length r" by (rule spaceWidthEnd_le)
  ultimately show "(drop (spaceWidthEnd r) r, r) \<in> measure length" by simp
qed

declare trimLeftSpaceRev.simps [simp del]

definition TrimSpace :: "string \<Rightarrow> string" where
  "TrimSpace s = rev (trimLeftSpaceRev (rev (trimLeftSpace s)))"

text \<open>
  \<^verbatim>\<open>strings.Fields(s)\<close>: the maximal runs of bytes of \<open>s\<close> that hold no white-space rune, in
  order; \<open>cur\<close> is the field being read.
\<close>

function fieldsFrom :: "string \<Rightarrow> string \<Rightarrow> string list" where
  "fieldsFrom cur s =
     (if s = [] then (if cur = [] then [] else [cur])
      else if spaceWidth s = 0 then fieldsFrom (cur @ [hd s]) (tl s)
      else (if cur = [] then [] else [cur]) @ fieldsFrom [] (drop (spaceWidth s) s))"
  by pat_completeness auto

termination fieldsFrom
proof (relation "measure (\<lambda>(cur, s). length s)")
  show "wf (measure (\<lambda>(cur, s). length s))" by simp
next
  fix cur s :: string
  assume "s \<noteq> []"
  then show "((cur @ [hd s], tl s), (cur, s)) \<in> measure (\<lambda>(cur, s). length s)"
    by (cases s) auto
next
  fix cur s :: string
  assume "s \<noteq> []" "spaceWidth s \<noteq> 0"
  then show "(([], drop (spaceWidth s) s), (cur, s)) \<in> measure (\<lambda>(cur, s). length s)"
    by (cases s) auto
qed

declare fieldsFrom.simps [simp del]

definition Fields :: "string \<Rightarrow> string list" where
  "Fields s = fieldsFrom [] s"

text \<open>
  \<^verbatim>\<open>strings.ReplaceAll(s, old, new)\<close> for a non-empty \<open>old\<close>: the non-overlapping
  occurrences of \<open>old\<close>, found from the left, are replaced by \<open>new\<close>. The program calls it
  with \<open>old = "${version}"\<close> only; for an empty \<open>old\<close> (where Go inserts \<open>new\<close> around every
  rune) the model returns \<open>s\<close>.
\<close>

function ReplaceAll :: "string \<Rightarrow> string \<Rightarrow> string \<Rightarrow> string" where
  "ReplaceAll s old new =
     (if s = [] \<or> old = [] then s
      else if HasPrefix s old then new @ ReplaceAll (drop (length old) s) old new
      else hd s # ReplaceAll (tl s) old new)"
  by pat_completeness auto

termination ReplaceAll
proof (relation "measure (\<lambda>(s, old, new). length s)")
  show "wf (measure (\<lambda>(s, old, new). length s))" by simp
next
  fix s old new :: string
  assume "\<not> (s = [] \<or> old = [])"
  then show "((drop (length old) s, old, new), (s, old, new))
      \<in> measure (\<lambda>(s, old, new). length s)"
    by (cases s; cases old) auto
next
  fix s old new :: string
  assume "\<not> (s = [] \<or> old = [])"
  then show "((tl s, old, new), (s, old, new)) \<in> measure (\<lambda>(s, old, new). length s)"
    by (cases s) auto
qed

declare ReplaceAll.simps [simp del]

text \<open>
  \<^verbatim>\<open>strings.Split(s, sep)\<close> for a non-empty \<open>sep\<close>: the pieces of \<open>s\<close> between the
  occurrences of \<open>sep\<close>; the result always has at least one element. The program calls it
  with \<open>sep = "\n"\<close> only; for an empty \<open>sep\<close> (where Go splits after every rune) the model
  returns \<open>[s]\<close>.
\<close>

function splitFrom :: "string \<Rightarrow> string \<Rightarrow> string \<Rightarrow> string list" where
  "splitFrom cur s sep =
     (if s = [] then [cur]
      else if sep \<noteq> [] \<and> HasPrefix s sep then cur # splitFrom [] (drop (length sep) s) sep
      else splitFrom (cur @ [hd s]) (tl s) sep)"
  by pat_completeness auto

termination splitFrom
proof (relation "measure (\<lambda>(cur, s, sep). length s)")
  show "wf (measure (\<lambda>(cur, s, sep). length s))" by simp
next
  fix cur s sep :: string
  assume "s \<noteq> []" "sep \<noteq> [] \<and> HasPrefix s sep"
  then show "(([], drop (length sep) s, sep), (cur, s, sep))
      \<in> measure (\<lambda>(cur, s, sep). length s)"
    by (cases s; cases sep) auto
next
  fix cur s sep :: string
  assume "s \<noteq> []"
  then show "((cur @ [hd s], tl s, sep), (cur, s, sep))
      \<in> measure (\<lambda>(cur, s, sep). length s)"
    by (cases s) auto
qed

declare splitFrom.simps [simp del]

definition Split :: "string \<Rightarrow> string \<Rightarrow> string list" where
  "Split s sep = splitFrom [] s sep"

subsection \<open>Expansion of environment variables\<close>

text \<open>
  \<^verbatim>\<open>os.Expand(s, mapping)\<close> replaces every \<^verbatim>\<open>${var}\<close> and \<^verbatim>\<open>$var\<close> of \<open>s\<close> by
  \<open>mapping var\<close>, and \<^verbatim>\<open>os.ExpandEnv(s)\<close> is \<^verbatim>\<open>os.Expand(s, os.Getenv)\<close>, where
  \<^verbatim>\<open>os.Getenv\<close> gives the empty string for a variable that is not set.
  \<open>getShellName s\<close> reads the name that follows a dollar sign and says how many bytes it
  spans; \<^verbatim>\<open>os.Expand\<close> calls it on a non-empty \<open>s\<close> only.
\<close>

definition isShellSpecialVar :: "char \<Rightarrow> bool" where
  "isShellSpecialVar c = (c \<in> set ''*#$@!?-0123456789'')"

definition isAlphaNum :: "char \<Rightarrow> bool" where
  "isAlphaNum c =
     (c = CHR ''_'' \<or> c \<in> set ''0123456789'' \<or> c \<in> set ''abcdefghijklmnopqrstuvwxyz''
      \<or> c \<in> set ''ABCDEFGHIJKLMNOPQRSTUVWXYZ'')"

definition getShellName :: "string \<Rightarrow> string \<times> nat" where
  "getShellName s =
     (case s of
        [] \<Rightarrow> ([], 0)
      | c # body \<Rightarrow>
          if c = CHR ''{'' then
            (if length s > 2 \<and> isShellSpecialVar (s ! 1) \<and> s ! 2 = CHR ''}''
             then ([s ! 1], 3)
             else (let n = length (takeWhile (\<lambda>x. x \<noteq> CHR ''}'') body) in
                   if n = length body then ([], 1)
                   else if n = 0 then ([], 2)
                   else (take n body, n + 2)))
          else if isShellSpecialVar c then ([c], 1)
          else (takeWhile isAlphaNum s, length (takeWhile isAlphaNum s)))"

function Expand :: "string \<Rightarrow> (string \<Rightarrow> string) \<Rightarrow> string" where
  "Expand s mapping =
     (case s of
        [] \<Rightarrow> []
      | c # cs \<Rightarrow>
          if c = CHR ''$'' \<and> cs \<noteq> [] then
            (if fst (getShellName cs) = [] \<and> snd (getShellName cs) > 0 then []
             else if fst (getShellName cs) = [] then [c]
             else mapping (fst (getShellName cs)))
            @ Expand (drop (snd (getShellName cs)) cs) mapping
          else c # Expand cs mapping)"
  by pat_completeness auto

termination Expand
  by (relation "measure (\<lambda>(s, mapping). length s)") auto

declare Expand.simps [simp del]

definition ExpandEnv :: "(string \<Rightarrow> string) \<Rightarrow> string \<Rightarrow> string" where
  "ExpandEnv getenv s = Expand s getenv"

section \<open>Regular expressions\<close>

text \<open>
  The six patterns of \<^verbatim>\<open>extractVersion\<close> are concatenations of single-rune items:
  a literal, \<^verbatim>\<open>\d\<close> (an ASCII digit), \<^verbatim>\<open>\s\<close> (one of tab, newline, form feed, carriage
  return and space), each possibly under the greedy repetition \<^verbatim>\<open>+\<close>, and the parentheses
  of a capture group. A compiled pattern is the list of its items. Under the flag
  \<^verbatim>\<open>(?i)\<close> a literal matches every rune of its case-folding orbit: for a letter its two
  cases, and besides U+017F for \<open>s\<close> and U+212A for \<open>k\<close>.
\<close>

datatype atom = Lit char | LitFold char | Digit | Space

datatype item = One atom | Plus atom | Open | Close

definition toLower :: "char \<Rightarrow> char" where
  "toLower c =
     (if c \<in> set ''ABCDEFGHIJKLMNOPQRSTUVWXYZ'' then char_of (of_char c + (32::nat)) else c)"

definition toUpper :: "char \<Rightarrow> char" where
  "toUpper c =
     (if c \<in> set ''abcdefghijklmnopqrstuvwxyz'' then char_of (of_char c - (32::nat)) else c)"

definition foldOrbit :: "char \<Rightarrow> string list" where
  "foldOrbit c =
     (if toLower c = toUpper c then [[c]]
      else [[toLower c], [toUpper c]]
        @ (if toLower c = CHR ''s'' then [[CHR 0xC5, CHR 0xBF]] else [])
        @ (if toLower c = CHR ''k'' then [[CHR 0xE2, CHR 0x84, CHR 0xAA]] else []))"

text \<open>
  \<open>eat a s\<close> is the number of bytes of the rune that starts \<open>s\<close> when the atom \<open>a\<close> matches
  that rune, and 0 when it does not (or \<open>s\<close> is empty).
\<close>

fun eat :: "atom \<Rightarrow> string \<Rightarrow> nat" where
  "eat (Lit c) s = (if HasPrefix s [c] then 1 else 0)"
| "eat (LitFold c) s =
     (case List.find (HasPrefix s) (foldOrbit c) of None \<Rightarrow> 0 | Some w \<Rightarrow> length w)"
| "eat Digit s = (if s \<noteq> [] \<and> hd s \<in> set ''0123456789'' then 1 else 0)"
| "eat Space s =
     (if s \<noteq> [] \<and> hd s \<in> set [CHR 0x09, CHR 0x0A, CHR 0x0C, CHR 0x0D, CHR 0x20] then 1
      else 0)"

lemma eat_le: "eat a s \<le> length s"
proof (cases a)
  case (Lit c)
  then show ?thesis using HasPrefix_length [of s "[c]"] by auto
next
  case (LitFold c)
  then show ?thesis
    by (auto simp: find_Some_iff dest: HasPrefix_length split: option.splits)
next
  case Digit
  then show ?thesis by (cases s) auto
next
  case Space
  then show ?thesis by (cases s) auto
qed

text \<open>
  \<open>matchHere items s\<close> matches the items at the start of \<open>s\<close> the way a backtracking
  matcher does, which is the match Go's \<^verbatim>\<open>regexp\<close> reports: a repetition takes as many
  runes as it can and gives them back one at a time while the rest fails. The result
  holds, for each item, the text that the item matched.
\<close>

definition joinFirst :: "string \<Rightarrow> string list \<Rightarrow> string list" where
  "joinFirst x ps = (case ps of [] \<Rightarrow> [x] | p # ps' \<Rightarrow> (x @ p) # ps')"

function matchHere :: "item list \<Rightarrow> string \<Rightarrow> string list option" where
  "matchHere [] s = Some []"
| "matchHere (Open # items) s = map_option (Cons []) (matchHere items s)"
| "matchHere (Close # items) s = map_option (Cons []) (matchHere items s)"
| "matchHere (One a # items) s =
     (if eat a s = 0 then None
      else map_option (Cons (take (eat a s) s)) (matchHere items (drop (eat a s) s)))"
| "matchHere (Plus a # items) s =
     (if eat a s = 0 then None
      else (case matchHere (Plus a # items) (drop (eat a s) s) of
              Some ps \<Rightarrow> Some (joinFirst (take (eat a s) s) ps)
            | None \<Rightarrow> map_option (Cons (take (eat a s) s)) (matchHere items (drop (eat a s) s))))"
  by pat_completeness auto

termination matchHere
proof (relation "measure (\<lambda>(items, s). length items + length s)")
  show "wf (measure (\<lambda>(items, s). length items + length s))" by simp
next
  fix a items and s :: string
  assume "eat a s \<noteq> 0"
  moreover have "eat a s \<le> length s" by (rule eat_le)
  ultimately show "((Plus a # items, drop (eat a s) s), (Plus a # items, s))
      \<in> measure (\<lambda>(items, s). length items + length s)"
    by simp
qed auto

declare matchHere.simps [simp del]

text \<open>The leftmost match: the first position of \<open>s\<close> where the items match.\<close>

fun search :: "item list \<Rightarrow> string \<Rightarrow> string list option" where
  "search items [] = matchHere items []"
| "search items (c # cs) =
     (case matchHere items (c # cs) of Some ps \<Rightarrow> Some ps | None \<Rightarrow> search items cs)"

text \<open>
  The texts of the capture groups, read off the items and the texts they matched; \<open>cur\<close>
  is the text of the group that is open.
\<close>

fun captures :: "item list \<Rightarrow> string list \<Rightarrow> string \<Rightarrow> string list" where
  "captures (Open # items) (p # ps) cur = captures items ps []"
| "captures (Close # items) (p # ps) cur = cur # captures items ps []"
| "captures (i # items) (p # ps) cur = captures items ps (cur @ p)"
| "captures items ps cur = []"

text \<open>
  \<^verbatim>\<open>FindString\<close> gives the text of the leftmost match, and the empty string when there is
  none. \<^verbatim>\<open>FindStringSubmatch\<close> gives the text of the leftmost match followed by the texts
  of its capture groups, and the empty (nil) slice when there is none.
\<close>

definition FindString :: "item list \<Rightarrow> string \<Rightarrow> string" where
  "FindString re s = (case search re s of None \<Rightarrow> [] | Some ps \<Rightarrow> concat ps)"

definition FindStringSubmatch :: "item list \<Rightarrow> string \<Rightarrow> string list" where
  "FindStringSubmatch re s =
     (case search re s of None \<Rightarrow> [] | Some ps \<Rightarrow> concat ps # captures re ps [])"

text \<open>
  \<^verbatim>\<open>regexp.MustCompile(pattern)\<close>, for the syntax that the six patterns use: the flag
  \<^verbatim>\<open>(?i)\<close>, the parentheses of a capture group, the escapes \<^verbatim>\<open>\d\<close>, \<^verbatim>\<open>\s\<close> and \<^verbatim>\<open>\.\<close>,
  literals, and a postfix \<^verbatim>\<open>+\<close>. \<open>ci\<close> says whether \<^verbatim>\<open>(?i)\<close> has been read. A backslash
  cannot be written inside an Isabelle string literal: \<open>esc t\<close> is the text \<open>t\<close> after a
  backslash.
\<close>

definition esc :: "string \<Rightarrow> string" where
  "esc t = CHR 0x5C # t"

definition literal :: "bool \<Rightarrow> char \<Rightarrow> atom" where
  "literal ci c = (if ci then LitFold c else Lit c)"

definition escaped :: "bool \<Rightarrow> char \<Rightarrow> atom" where
  "escaped ci e =
     (if e = CHR ''d'' then Digit else if e = CHR ''s'' then Space else literal ci e)"

function compileFrom :: "bool \<Rightarrow> string \<Rightarrow> item list" where
  "compileFrom ci s =
     (case s of
        [] \<Rightarrow> []
      | c # r \<Rightarrow>
          if c = CHR ''('' then
            (if HasPrefix r ''?i)'' then compileFrom True (drop 3 r)
             else Open # compileFrom ci r)
          else if c = CHR '')'' then Close # compileFrom ci r
          else if c = CHR 0x5C \<and> r \<noteq> [] then
            (if HasPrefix (tl r) ''+'' then Plus (escaped ci (hd r)) # compileFrom ci (drop 2 r)
             else One (escaped ci (hd r)) # compileFrom ci (tl r))
          else if HasPrefix r ''+'' then Plus (literal ci c) # compileFrom ci (tl r)
          else One (literal ci c) # compileFrom ci r)"
  by pat_completeness auto

termination compileFrom
  by (relation "measure (\<lambda>(ci, s). length s)") auto

declare compileFrom.simps [simp del]

definition MustCompile :: "string \<Rightarrow> item list" where
  "MustCompile pattern = compileFrom False pattern"

section \<open>The version extractor\<close>

text \<open>The list \<^verbatim>\<open>patterns\<close> of \<^verbatim>\<open>extractVersion\<close>, in the order of the source.\<close>

definition patterns :: "string list" where
  "patterns =
     [''(?i)version'' @ esc ''s+(v'' @ esc ''d+'' @ esc ''.'' @ esc ''d+'' @ esc ''.'' @ esc ''d+)'',
      ''(?i)amass'' @ esc ''s+-'' @ esc ''s+v'' @ esc ''d+'' @ esc ''.'' @ esc ''d+'' @ esc ''.''
        @ esc ''d+'',
      ''v'' @ esc ''d+'' @ esc ''.'' @ esc ''d+'' @ esc ''.'' @ esc ''d+'',
      esc ''d+'' @ esc ''.'' @ esc ''d+'' @ esc ''.'' @ esc ''d+'',
      ''go'' @ esc ''d+'' @ esc ''.'' @ esc ''d+'' @ esc ''.'' @ esc ''d+'',
      ''Version: (v'' @ esc ''d+'' @ esc ''.'' @ esc ''d+'' @ esc ''.'' @ esc ''d+)'']"

text \<open>
  The loop over the patterns. \<open>Some v\<close> is a \<^verbatim>\<open>return v\<close> inside the loop, \<open>None\<close> is the
  loop running to its end. A pattern whose text holds an opening parenthesis goes
  through \<^verbatim>\<open>FindStringSubmatch\<close> and returns its first capture group; every other pattern
  goes through \<^verbatim>\<open>FindString\<close> and returns the match, cleaned of an \<^verbatim>\<open>amass - \<close> or \<^verbatim>\<open>go\<close>
  prefix.
\<close>

fun tryPatterns :: "string list \<Rightarrow> string \<Rightarrow> string option" where
  "tryPatterns [] version = None"
| "tryPatterns (pattern # rest) version =
     (if Contains pattern ''('' then
        (if length (FindStringSubmatch (MustCompile pattern) version) > 1
         then Some (FindStringSubmatch (MustCompile pattern) version ! 1)
         else tryPatterns rest version)
      else
        (if FindString (MustCompile pattern) version \<noteq> []
         then Some (let match = FindString (MustCompile pattern) version in
                    if Contains match ''amass - ''
                    then TrimPrefix (TrimPrefix match ''amass - '') ''v''
                    else if HasPrefix match ''go'' then TrimPrefix match ''go''
                    else match)
         else tryPatterns rest version))"

text \<open>
  \<^verbatim>\<open>extractVersion\<close>, with the list of patterns as a parameter: the trimmed output goes
  through the patterns, and when none returns, the result is the first line of the
  trimmed output.
\<close>

definition extractVersionWith :: "string list \<Rightarrow> string \<Rightarrow> string" where
  "extractVersionWith ps output =
     (let version = TrimSpace output in
      case tryPatterns ps version of
        Some v \<Rightarrow> v
      | None \<Rightarrow>
          (let lines = Split version [CHR 0x0A] in
           if length lines > 0 then lines ! 0 else []))"

definition extractVersion :: "string \<Rightarrow> string" where
  "extractVersion output = extractVersionWith patterns output"

section \<open>The configuration\<close>

text \<open>
  The structures of \<^verbatim>\<open>internal/config\<close>. \<^verbatim>\<open>Tools\<close> is a Go map from tool names to pointers:
  \<open>Tools cfg name = None\<close> says that the lookup \<^verbatim>\<open>config.Tools[name]\<close> gives the nil
  pointer, which it does for a name that has no entry, for an entry that is null, and
  for every name when the map itself is nil.
\<close>

record InstallMethod =
  Name :: string
  Commands :: "string list"

record ToolConfig =
  Dependencies :: "string list"
  Version :: string
  VersionFlag :: string
  Methods :: "InstallMethod list"

record InstallerConfig =
  ToolList :: "string list"
  Tools :: "string \<rightharpoonup> ToolConfig"

datatype config_error = ReadError | ParseError

section \<open>The operating system\<close>

text \<open>
  What happened to an installation command: \<^verbatim>\<open>StdoutPipe\<close> failed, \<^verbatim>\<open>StderrPipe\<close> failed,
  \<^verbatim>\<open>Start\<close> failed (the command did not spawn), \<^verbatim>\<open>Wait\<close> gave an error (the command exited
  non-zero, or its wait failed otherwise), or the command exited zero.
\<close>

datatype outcome = StdoutPipeError | StderrPipeError | StartError | WaitError | ExitZero

text \<open>
  The processes that the driver has run so far: \<open>Probe name flag\<close> is the version query
  \<^verbatim>\<open>exec.Command(name, flag).CombinedOutput()\<close> of \<^verbatim>\<open>getToolVersion\<close>, and
  \<open>Command tool method argv oc\<close> is the installation command \<open>argv\<close> that \<^verbatim>\<open>installTool\<close> ran
  for \<open>tool\<close> under the method named \<open>method\<close>, with what happened to it.
\<close>

datatype event = Probe string string | Command string string "string list" outcome

text \<open>
  The machine around the driver. What a lookup on the search path finds and what a
  process does may depend on everything that has been run before, so each answer is a
  function of the history: \<open>LookPath h name\<close> says whether \<^verbatim>\<open>exec.LookPath(name)\<close>
  succeeds, \<open>CombinedOutput h name flag\<close> is the output of the version query and whether
  it ended without error, and \<open>Execute h argv\<close> is what happens to the installation
  command \<open>argv\<close>. \<open>Getenv\<close> is the environment of the driver's own process, which the
  driver never changes.
\<close>

record system =
  LookPath :: "event list \<Rightarrow> string \<Rightarrow> bool"
  Getenv :: "string \<Rightarrow> string"
  CombinedOutput :: "event list \<Rightarrow> string \<Rightarrow> string \<Rightarrow> string \<times> bool"
  Execute :: "event list \<Rightarrow> string list \<Rightarrow> outcome"

text \<open>
  The lines that the driver prints, without their colours. The progress indicator and
  the lines that echo the output of a \<^verbatim>\<open>go install\<close> command are not modelled.
\<close>

datatype install_error = NoMethods | StdoutPipeFailed | StderrPipeFailed | AllMethodsFailed

datatype message =
    Header
  | NotInstalled string
  | InstalledVersionUnknown string
  | Installed string string
  | Installing string string
  | FailedToStart string
  | FailedCommand string
  | FailedToInstall string install_error
  | Summary nat nat
  | ConfigError config_error
  | RunError install_error

record state =
  history :: "event list"
  printed :: "message list"

definition print :: "message \<Rightarrow> state \<Rightarrow> state" where
  "print m st = st\<lparr>printed := printed st @ [m]\<rparr>"

definition ran :: "event \<Rightarrow> state \<Rightarrow> state" where
  "ran e st = st\<lparr>history := history st @ [e]\<rparr>"

definition start :: state where
  "start = \<lparr>history = [], printed = []\<rparr>"

datatype panic = NilPointerDereference

section \<open>The tool detector\<close>

definition versionFlags :: "string list" where
  "versionFlags = [''--version'', ''-version'', ''version'', ''-v'', ''-V'', ''--ver'', ''-ver'']"

text \<open>
  The loop of \<^verbatim>\<open>getToolVersion\<close> over the flags: a query that ends in error moves on to
  the next flag, and so does one whose extracted version is empty; the loop ends at the
  first non-empty version, or with the empty version after the last flag.
\<close>

fun probeFlags :: "system \<Rightarrow> string \<Rightarrow> string list \<Rightarrow> state \<Rightarrow> string \<times> state" where
  "probeFlags sys name [] st = ([], st)"
| "probeFlags sys name (flag # flags) st =
     (if \<not> snd (CombinedOutput sys (history st) name flag)
      then probeFlags sys name flags (ran (Probe name flag) st)
      else if extractVersion (fst (CombinedOutput sys (history st) name flag)) \<noteq> []
      then (extractVersion (fst (CombinedOutput sys (history st) name flag)),
            ran (Probe name flag) st)
      else probeFlags sys name flags (ran (Probe name flag) st))"

text \<open>
  \<^verbatim>\<open>getToolVersion\<close> reads \<^verbatim>\<open>i.config.Tools[name].Version\<close> first, which panics when the
  lookup gives the nil pointer.
\<close>

definition getToolVersion ::
  "system \<Rightarrow> InstallerConfig \<Rightarrow> string \<Rightarrow> state \<Rightarrow> (panic + string) \<times> state" where
  "getToolVersion sys cfg name st =
     (case Tools cfg name of
        None \<Rightarrow> (Inl NilPointerDereference, st)
      | Some tc \<Rightarrow>
          if Version tc \<noteq> [] then (Inr (Version tc), st)
          else (case probeFlags sys name
                       (if VersionFlag tc \<noteq> [] then [VersionFlag tc] else versionFlags) st of
                  (version, st') \<Rightarrow> (Inr version, st')))"

definition checkTool ::
  "system \<Rightarrow> InstallerConfig \<Rightarrow> string \<Rightarrow> state \<Rightarrow> (panic + bool) \<times> state" where
  "checkTool sys cfg name st =
     (if \<not> LookPath sys (history st) name then (Inr False, print (NotInstalled name) st)
      else (case getToolVersion sys cfg name st of
              (Inl p, st') \<Rightarrow> (Inl p, st')
            | (Inr version, st') \<Rightarrow>
                if version = [] then (Inr True, print (InstalledVersionUnknown name) st')
                else (Inr True, print (Installed name version) st')))"

section \<open>The installer driver\<close>

text \<open>
  How a loop of \<^verbatim>\<open>installTool\<close> ends: \<open>Return r\<close> is a \<^verbatim>\<open>return\<close> inside the loop (\<open>r = None\<close>
  for \<^verbatim>\<open>return nil\<close>), \<open>Continue\<close> is the loop running to its end.
\<close>

datatype flow = Continue | Return "install_error option"

text \<open>
  The inner loop of \<^verbatim>\<open>installTool\<close>, over the commands of one method. A command whose
  text has no field is skipped; a pipe that cannot be created returns the error; a
  command that fails to start or whose wait gives an error is followed by
  \<^verbatim>\<open>continue\<close>, which goes on with the next command of the same method; a command that
  exits zero is followed by \<^verbatim>\<open>return nil\<close>.
\<close>

fun runCommands ::
  "system \<Rightarrow> string \<Rightarrow> ToolConfig \<Rightarrow> string \<Rightarrow> string list \<Rightarrow> state \<Rightarrow> flow \<times> state" where
  "runCommands sys name tc method [] st = (Continue, st)"
| "runCommands sys name tc method (template # rest) st =
     (let expanded = ExpandEnv (Getenv sys) template;
          command = (if Version tc \<noteq> [] then ReplaceAll expanded ''${version}'' (Version tc)
                     else expanded);
          parts = Fields command
      in if length parts = 0 then runCommands sys name tc method rest st
         else (case Execute sys (history st) parts of
                 StdoutPipeError \<Rightarrow> (Return (Some StdoutPipeFailed), st)
               | StderrPipeError \<Rightarrow> (Return (Some StderrPipeFailed), st)
               | StartError \<Rightarrow>
                   runCommands sys name tc method rest
                     (print (FailedToStart command) (ran (Command name method parts StartError) st))
               | WaitError \<Rightarrow>
                   runCommands sys name tc method rest
                     (print (FailedCommand name) (ran (Command name method parts WaitError) st))
               | ExitZero \<Rightarrow> (Return None, ran (Command name method parts ExitZero) st)))"

text \<open>The outer loop of \<^verbatim>\<open>installTool\<close>, over the methods of the tool.\<close>

fun tryMethods ::
  "system \<Rightarrow> string \<Rightarrow> ToolConfig \<Rightarrow> InstallMethod list \<Rightarrow> state \<Rightarrow> flow \<times> state" where
  "tryMethods sys name tc [] st = (Continue, st)"
| "tryMethods sys name tc (method # rest) st =
     (case runCommands sys name tc (Name method) (Commands method)
             (print (Installing name (Name method)) st) of
        (Return r, st') \<Rightarrow> (Return r, st')
      | (Continue, st') \<Rightarrow> tryMethods sys name tc rest st')"

text \<open>\<^verbatim>\<open>installTool\<close>: \<open>None\<close> is the nil error, the installation reported as succeeded.\<close>

definition installTool ::
  "system \<Rightarrow> InstallerConfig \<Rightarrow> string \<Rightarrow> state \<Rightarrow> install_error option \<times> state" where
  "installTool sys cfg name st =
     (case Tools cfg name of
        None \<Rightarrow> (Some NoMethods, st)
      | Some tc \<Rightarrow>
          if length (Methods tc) = 0 then (Some NoMethods, st)
          else (case tryMethods sys name tc (Methods tc) st of
                  (Return r, st') \<Rightarrow> (r, st')
                | (Continue, st') \<Rightarrow> (Some AllMethodsFailed, st')))"

text \<open>
  The loop of \<^verbatim>\<open>Run\<close> over the tool list; \<open>installed\<close> is its counter. A panic of
  \<^verbatim>\<open>checkTool\<close> ends the loop, as it ends the process.
\<close>

fun runLoop ::
  "system \<Rightarrow> InstallerConfig \<Rightarrow> string list \<Rightarrow> nat \<Rightarrow> state \<Rightarrow> (panic + nat) \<times> state" where
  "runLoop sys cfg [] installed st = (Inr installed, st)"
| "runLoop sys cfg (name # names) installed st =
     (case checkTool sys cfg name st of
        (Inl p, st') \<Rightarrow> (Inl p, st')
      | (Inr True, st') \<Rightarrow> runLoop sys cfg names (installed + 1) st'
      | (Inr False, st') \<Rightarrow>
          (case installTool sys cfg name st' of
             (Some err, st'') \<Rightarrow>
               runLoop sys cfg names installed (print (FailedToInstall name err) st'')
           | (None, st'') \<Rightarrow> runLoop sys cfg names (installed + 1) st''))"

text \<open>\<^verbatim>\<open>Run\<close> prints the summary and returns the nil error, \<open>None\<close>, unless it panics.\<close>

definition Run ::
  "system \<Rightarrow> InstallerConfig \<Rightarrow> state \<Rightarrow> (panic + install_error option) \<times> state" where
  "Run sys cfg st =
     (case runLoop sys cfg (ToolList cfg) 0 (print Header st) of
        (Inl p, st') \<Rightarrow> (Inl p, st')
      | (Inr installed, st') \<Rightarrow>
          (Inr None, print (Summary installed (length (ToolList cfg))) st'))"

text \<open>
  \<^verbatim>\<open>main\<close>, from the result of \<^verbatim>\<open>config.LoadConfig("installer.yaml")\<close>: the process ends
  with an exit code, or with a run-time panic that nothing recovers (the Go run time
  then ends the process with status 2).
\<close>

datatype ending = ExitCode nat | Panicked panic

definition main ::
  "system \<Rightarrow> config_error + InstallerConfig \<Rightarrow> state \<Rightarrow> ending \<times> state" where
  "main sys loaded st =
     (case loaded of
        Inl err \<Rightarrow> (ExitCode 1, print (ConfigError err) st)
      | Inr cfg \<Rightarrow>
          (case Run sys cfg st of
             (Inl p, st') \<Rightarrow> (Panicked p, st')
           | (Inr (Some err), st') \<Rightarrow> (ExitCode 1, print (RunError err) st')
           | (Inr None, st') \<Rightarrow> (ExitCode 0, st')))"

section \<open>Scenarios\<close>

text \<open>
  A machine on which no tool is on the search path, no environment variable is set,
  every version query ends in error and every installation command exits zero.
\<close>

definition quiet :: system where
  "quiet =
     \<lparr>LookPath = (\<lambda>h name. False),
      Getenv = (\<lambda>var. []),
      CombinedOutput = (\<lambda>h name flag. ([], False)),
      Execute = (\<lambda>h argv. ExitZero)\<rparr>"

text \<open>The same machine, but the command \<^verbatim>\<open>c1\<close> ends with the outcome \<open>oc\<close>.\<close>

definition failingFirst :: "outcome \<Rightarrow> system" where
  "failingFirst oc = quiet\<lparr>Execute := (\<lambda>h argv. if argv = [''c1''] then oc else ExitZero)\<rparr>"

text \<open>A tool with one method of two commands, and no fixed version.\<close>

definition alphaConfig :: InstallerConfig where
  "alphaConfig =
     \<lparr>ToolList = [''alpha''],
      Tools = [''alpha'' \<mapsto>
        \<lparr>Dependencies = [], Version = [], VersionFlag = [],
         Methods = [\<lparr>Name = ''m'', Commands = [''c1'', ''c2'']\<rparr>]\<rparr>]\<rparr>"

text \<open>A tool with the fixed version 1.23.3 and a command that holds the placeholder.\<close>

definition goConfig :: InstallerConfig where
  "goConfig =
     \<lparr>ToolList = [''go''],
      Tools = [''go'' \<mapsto>
        \<lparr>Dependencies = [], Version = ''1.23.3'', VersionFlag = [],
         Methods = [\<lparr>Name = ''binary'', Commands = [''tar -xzf go${version}.tar.gz'']\<rparr>]\<rparr>]\<rparr>"

text \<open>
  A tool list whose first name, \<^verbatim>\<open>git\<close>, has no entry among the tools, on a machine
  where \<^verbatim>\<open>git\<close> is on the search path.
\<close>

definition gitConfig :: InstallerConfig where
  "gitConfig = alphaConfig\<lparr>ToolList := [''git'', ''alpha'']\<rparr>"

definition gitMachine :: system where
  "gitMachine = quiet\<lparr>LookPath := (\<lambda>h name. name = ''git'')\<rparr>"

text \<open>
  A machine where \<^verbatim>\<open>go\<close> stays on the search path, and a tool list that installs
  \<^verbatim>\<open>alpha\<close> before it checks \<^verbatim>\<open>go\<close>.
\<close>

definition goMachine :: system where
  "goMachine = quiet\<lparr>LookPath := (\<lambda>h name. name = ''go'')\<rparr>"



section \<open>Installation commands in a history\<close>







section \<open>Properties of the version extractor\<close>

subsection \<open>The compiled patterns\<close>


lemma compiled_v:
  "MustCompile (patterns ! 2) =
     [One (Lit CHR ''v''), Plus Digit, One (Lit CHR ''.''), Plus Digit, One (Lit CHR ''.''),
      Plus Digit]"
  by code_simp

lemma compiled_bare:
  "MustCompile (patterns ! 3) =
     [Plus Digit, One (Lit CHR ''.''), Plus Digit, One (Lit CHR ''.''), Plus Digit]"
  by code_simp

lemma compiled_go:
  "MustCompile (patterns ! 4) =
     One (Lit CHR ''g'') # One (Lit CHR ''o'') # MustCompile (patterns ! 3)"
  by code_simp

lemma compiled_Version:
  "MustCompile (patterns ! 5) =
     map (\<lambda>c. One (Lit c)) ''Version: '' @ Open # MustCompile (patterns ! 2) @ [Close]"
  by code_simp

lemma has_paren:
  "Contains (patterns ! 0) ''(''" "Contains (patterns ! 1) ''(''"
  "\<not> Contains (patterns ! 2) ''(''" "\<not> Contains (patterns ! 3) ''(''"
  "\<not> Contains (patterns ! 4) ''(''" "Contains (patterns ! 5) ''(''"
  by code_simp+


lemma matchHere_prefix:
  "matchHere (xs @ ys) s \<noteq> None \<Longrightarrow> matchHere xs s \<noteq> None"
proof (induction xs s rule: matchHere.induct)
  case (1 s)
  show ?case by (simp add: matchHere.simps(1))
next
  case (2 items s)
  then show ?case by (simp add: matchHere.simps(2))
next
  case (3 items s)
  then show ?case by (simp add: matchHere.simps(3))
next
  case (4 a items s)
  show ?case
  proof (cases "eat a s = 0")
    case True
    with "4.prems" show ?thesis by (simp add: matchHere.simps(4))
  next
    case False
    with "4.prems" have "matchHere (items @ ys) (drop (eat a s) s) \<noteq> None"
      by (simp add: matchHere.simps(4))
    then have "matchHere items (drop (eat a s) s) \<noteq> None"
      using "4.IH" [OF False] by simp
    with False show ?thesis by (simp add: matchHere.simps(4))
  qed
next
  case (5 a items s)
  show ?case
  proof (cases "eat a s = 0")
    case True
    with "5.prems" show ?thesis by (simp add: matchHere.simps(5))
  next
    case False
    show ?thesis
    proof (cases "matchHere (Plus a # items) (drop (eat a s) s)")
      case (Some ps)
      with False show ?thesis by (simp add: matchHere.simps(5) [of a items s])
    next
      case None
      have n: "matchHere (Plus a # items @ ys) (drop (eat a s) s) = None"
        using "5.IH"(1) [OF False] None
        by (cases "matchHere (Plus a # items @ ys) (drop (eat a s) s)") auto
      have "matchHere (Plus a # items @ ys) s \<noteq> None" using "5.prems" by simp
      then have "matchHere (items @ ys) (drop (eat a s) s) \<noteq> None"
        using False n by (simp add: matchHere.simps(5) [of a "items @ ys" s])
      then have "matchHere items (drop (eat a s) s) \<noteq> None"
        using "5.IH"(2) [OF False None] by simp
      with False None show ?thesis by (simp add: matchHere.simps(5) [of a items s])
    qed
  qed
qed

lemma matchHere_Lit:
  "matchHere (One (Lit c) # items) s \<noteq> None \<Longrightarrow> \<exists>t. s = c # t \<and> matchHere items t \<noteq> None"
proof -
  assume m: "matchHere (One (Lit c) # items) s \<noteq> None"
  then have e: "eat (Lit c) s \<noteq> 0"
    by (cases "eat (Lit c) s = 0") (simp_all add: matchHere.simps(4))
  then obtain t where s: "s = c # t" by (cases s) (auto split: if_splits)
  with m have "matchHere items t \<noteq> None" by (simp add: matchHere.simps(4))
  with s show ?thesis by simp
qed

lemma search_iff:
  "search items s \<noteq> None \<longleftrightarrow> (\<exists>pre t. s = pre @ t \<and> matchHere items t \<noteq> None)"
proof (induction s)
  case Nil
  show ?case by simp
next
  case (Cons c cs)
  show ?case
  proof (cases "matchHere items (c # cs)")
    case (Some ps)
    then have "c # cs = [] @ (c # cs) \<and> matchHere items (c # cs) \<noteq> None" by simp
    then have "\<exists>pre t. c # cs = pre @ t \<and> matchHere items t \<noteq> None" by blast
    with Some show ?thesis by simp
  next
    case None
    have "(\<exists>pre t. c # cs = pre @ t \<and> matchHere items t \<noteq> None)
        = (\<exists>pre t. cs = pre @ t \<and> matchHere items t \<noteq> None)"
    proof
      assume "\<exists>pre t. c # cs = pre @ t \<and> matchHere items t \<noteq> None"
      then obtain pre t where pt: "c # cs = pre @ t" "matchHere items t \<noteq> None" by blast
      with None have "pre \<noteq> []" by (cases pre) auto
      then obtain pre' where "pre = c # pre'" using pt(1) by (cases pre) auto
      with pt show "\<exists>pre t. cs = pre @ t \<and> matchHere items t \<noteq> None" by auto
    next
      assume "\<exists>pre t. cs = pre @ t \<and> matchHere items t \<noteq> None"
      then obtain pre t where "cs = pre @ t" "matchHere items t \<noteq> None" by blast
      then have "c # cs = (c # pre) @ t \<and> matchHere items t \<noteq> None" by simp
      then show "\<exists>pre t. c # cs = pre @ t \<and> matchHere items t \<noteq> None" by blast
    qed
    with None Cons.IH show ?thesis by simp
  qed
qed

lemma joinFirst_concat: "concat (joinFirst x ps) = x @ concat ps"
  by (cases ps) (auto simp: joinFirst_def)

lemma eat_take: "eat a s \<noteq> 0 \<Longrightarrow> take (eat a s) s \<noteq> []"
  using eat_le [of a s] by (cases s) auto

lemma matchHere_One_nonempty:
  "matchHere (One a # items) s = Some ps \<Longrightarrow> concat ps \<noteq> []"
  using eat_take [of a s] by (auto simp: matchHere.simps(4) split: if_splits)

lemma matchHere_Plus_nonempty:
  "matchHere (Plus a # items) s = Some ps \<Longrightarrow> concat ps \<noteq> []"
proof -
  assume m: "matchHere (Plus a # items) s = Some ps"
  then have e: "eat a s \<noteq> 0"
    by (cases "eat a s = 0") (simp_all add: matchHere.simps(5) [of a items s])
  then have t: "take (eat a s) s \<noteq> []" by (rule eat_take)
  show ?thesis
  proof (cases "matchHere (Plus a # items) (drop (eat a s) s)")
    case (Some qs)
    with m e have "ps = joinFirst (take (eat a s) s) qs"
      by (simp add: matchHere.simps(5) [of a items s])
    then have "concat ps = take (eat a s) s @ concat qs" by (simp add: joinFirst_concat)
    with t show ?thesis by simp
  next
    case None
    with m e obtain qs where "ps = take (eat a s) s # qs"
      by (auto simp: matchHere.simps(5) [of a items s])
    with t show ?thesis by simp
  qed
qed

lemma search_matched:
  "search items s = Some ps \<Longrightarrow> \<exists>t. matchHere items t = Some ps"
  by (induction s) (auto split: option.splits)

lemma FindString_v: "search (MustCompile (patterns ! 2)) s \<noteq> None \<Longrightarrow> FindString (MustCompile (patterns ! 2)) s \<noteq> []"
proof -
  assume "search (MustCompile (patterns ! 2)) s \<noteq> None"
  then obtain ps where ps: "search (MustCompile (patterns ! 2)) s = Some ps" by auto
  then obtain t where "matchHere (MustCompile (patterns ! 2)) t = Some ps"
    using search_matched by blast
  then have "concat ps \<noteq> []"
    unfolding compiled_v by (rule matchHere_One_nonempty)
  with ps show ?thesis by (simp add: FindString_def)
qed

lemma FindString_bare: "search (MustCompile (patterns ! 3)) s \<noteq> None \<Longrightarrow> FindString (MustCompile (patterns ! 3)) s \<noteq> []"
proof -
  assume "search (MustCompile (patterns ! 3)) s \<noteq> None"
  then obtain ps where ps: "search (MustCompile (patterns ! 3)) s = Some ps" by auto
  then obtain t where "matchHere (MustCompile (patterns ! 3)) t = Some ps"
    using search_matched by blast
  then have "concat ps \<noteq> []"
    unfolding compiled_bare by (rule matchHere_Plus_nonempty)
  with ps show ?thesis by (simp add: FindString_def)
qed

lemma go_shadowed:
  "FindString (MustCompile (patterns ! 4)) s \<noteq> [] \<Longrightarrow> FindString (MustCompile (patterns ! 3)) s \<noteq> []"
proof -
  assume "FindString (MustCompile (patterns ! 4)) s \<noteq> []"
  then have "search (MustCompile (patterns ! 4)) s \<noteq> None"
    by (cases "search (MustCompile (patterns ! 4)) s") (simp_all add: FindString_def)
  then obtain pre t where pt: "s = pre @ t" "matchHere (MustCompile (patterns ! 4)) t \<noteq> None"
    using search_iff by blast
  from pt(2) obtain t1 where t1: "t = CHR ''g'' # t1"
      "matchHere (One (Lit CHR ''o'') # MustCompile (patterns ! 3)) t1 \<noteq> None"
    unfolding compiled_go using matchHere_Lit by blast
  from t1(2) obtain t2 where t2: "t1 = CHR ''o'' # t2"
      "matchHere (MustCompile (patterns ! 3)) t2 \<noteq> None"
    using matchHere_Lit by blast
  have "s = (pre @ ''go'') @ t2" using pt(1) t1(1) t2(1) by simp
  with t2(2) have "search (MustCompile (patterns ! 3)) s \<noteq> None"
    using search_iff by blast
  then show ?thesis by (rule FindString_bare)
qed

lemma matchHere_Lits:
  "matchHere (map (\<lambda>c. One (Lit c)) lits @ items) s \<noteq> None
   \<Longrightarrow> \<exists>t. s = lits @ t \<and> matchHere items t \<noteq> None"
proof (induction lits arbitrary: s)
  case Nil
  then show ?case by simp
next
  case (Cons c lits)
  then obtain t where t: "s = c # t" "matchHere (map (\<lambda>c. One (Lit c)) lits @ items) t \<noteq> None"
    using matchHere_Lit [of c "map (\<lambda>c. One (Lit c)) lits @ items" s] by auto
  from Cons.IH [OF t(2)] t(1) show ?case by auto
qed

lemma Version_shadowed:
  "length (FindStringSubmatch (MustCompile (patterns ! 5)) s) > 1 \<Longrightarrow> FindString (MustCompile (patterns ! 2)) s \<noteq> []"
proof -
  assume "length (FindStringSubmatch (MustCompile (patterns ! 5)) s) > 1"
  then have "search (MustCompile (patterns ! 5)) s \<noteq> None"
    by (cases "search (MustCompile (patterns ! 5)) s") (simp_all add: FindStringSubmatch_def)
  then obtain pre t where pt: "s = pre @ t" "matchHere (MustCompile (patterns ! 5)) t \<noteq> None"
    using search_iff by blast
  from pt(2) obtain t1 where t1: "t = ''Version: '' @ t1"
      "matchHere (Open # MustCompile (patterns ! 2) @ [Close]) t1 \<noteq> None"
    unfolding compiled_Version using matchHere_Lits by blast
  from t1(2) have "matchHere (MustCompile (patterns ! 2) @ [Close]) t1 \<noteq> None"
    by (simp add: matchHere.simps(2))
  then have m: "matchHere (MustCompile (patterns ! 2)) t1 \<noteq> None"
    by (rule matchHere_prefix)
  have "s = (pre @ ''Version: '') @ t1" using pt(1) t1(1) by simp
  with m have "search (MustCompile (patterns ! 2)) s \<noteq> None"
    using search_iff by blast
  then show ?thesis by (rule FindString_v)
qed

lemma tryPatterns_append:
  "tryPatterns (xs @ ys) v = (case tryPatterns xs v of Some r \<Rightarrow> Some r | None \<Rightarrow> tryPatterns ys v)"
  by (induction xs) simp_all

lemma first_four: "take 4 patterns = [patterns ! 0, patterns ! 1, patterns ! 2, patterns ! 3]"
  by (simp add: patterns_def)

lemma last_two: "drop 4 patterns = [patterns ! 4, patterns ! 5]"
  by (simp add: patterns_def)

lemma tryPatterns_None_simple:
  "tryPatterns ps v = None \<Longrightarrow> p \<in> set ps \<Longrightarrow> \<not> Contains p ''('' \<Longrightarrow>
   FindString (MustCompile p) v = []"
proof (induction ps)
  case Nil
  then show ?case by simp
next
  case (Cons q ps)
  have rest: "tryPatterns ps v = None"
    using Cons.prems(1) by (simp split: if_splits)
  show ?case
  proof (cases "p = q")
    case True
    with Cons.prems(1,3) show ?thesis by (simp split: if_splits)
  next
    case False
    with Cons.prems(2) have "p \<in> set ps" by simp
    with Cons.IH rest Cons.prems(3) show ?thesis by blast
  qed
qed

lemma first_four_None:
  assumes "tryPatterns (take 4 patterns) v = None"
  shows "FindString (MustCompile (patterns ! 2)) v = [] \<and> FindString (MustCompile (patterns ! 3)) v = []"
proof -
  have "patterns ! 2 \<in> set (take 4 patterns)" "patterns ! 3 \<in> set (take 4 patterns)"
    unfolding first_four by simp_all
  then show ?thesis
    using tryPatterns_None_simple [OF assms] has_paren(3,4) by blast
qed

lemma last_two_None:
  assumes "FindString (MustCompile (patterns ! 2)) v = []"
    and "FindString (MustCompile (patterns ! 3)) v = []"
  shows "tryPatterns (drop 4 patterns) v = None"
proof -
  have g: "FindString (MustCompile (patterns ! 4)) v = []"
    using go_shadowed [of v] assms(2) by blast
  have "\<not> length (FindStringSubmatch (MustCompile (patterns ! 5)) v) > 1"
    using Version_shadowed [of v] assms(1) by blast
  with g show ?thesis
    unfolding last_two using has_paren(5,6) by simp
qed

text \<open>
  C10. \<^verbatim>\<open>extractVersion\<close> never returns through its fifth pattern (\<^verbatim>\<open>go\<close> and three
  numbers) or its sixth (\<^verbatim>\<open>Version: \<close> and a version): every text that one of them matches
  is matched by the fourth or the third pattern already, which return. So
  \<^verbatim>\<open>extractVersion\<close> gives, on every output, what it gives with the list cut to its first
  four patterns, and whenever the first four patterns run through without a return, so
  do the last two.
\<close>

theorem patterns_5_6_unreachable:
  "extractVersion output = extractVersionWith (take 4 patterns) output
   \<and> (tryPatterns (take 4 patterns) input = None \<longrightarrow> tryPatterns (drop 4 patterns) input = None)"
proof -
  have dead: "\<And>v. tryPatterns (take 4 patterns) v = None \<Longrightarrow> tryPatterns (drop 4 patterns) v = None"
    using first_four_None last_two_None by blast
  have "\<And>v. tryPatterns patterns v = tryPatterns (take 4 patterns) v"
  proof -
    fix v
    have "tryPatterns (take 4 patterns @ drop 4 patterns) v = tryPatterns (take 4 patterns) v"
      unfolding tryPatterns_append using dead [of v]
      by (cases "tryPatterns (take 4 patterns) v") simp_all
    then show "tryPatterns patterns v = tryPatterns (take 4 patterns) v" by simp
  qed
  then have "extractVersion output = extractVersionWith (take 4 patterns) output"
    by (simp add: extractVersion_def extractVersionWith_def)
  with dead show ?thesis by blast
qed

theorem patterns_5_6_unreachable_witness:
  "tryPatterns (take 4 patterns) ''hello world'' = None
   \<and> tryPatterns (drop 4 patterns) ''hello world'' = None
   \<and> extractVersion ''hello world'' = extractVersionWith (take 4 patterns) ''hello world''"
proof -
  have h: "tryPatterns (take 4 patterns) ''hello world'' = None" by code_simp
  show ?thesis
    using h patterns_5_6_unreachable [of "''hello world''" "''hello world''"] by simp
qed

text \<open>
  C4. The specification gives six sample outputs with the version expected of each. On the code,
  five of them give the expected version, and \<^verbatim>\<open>amass - v4.5.6\<close> gives \<^verbatim>\<open>v4.5.6\<close> where the
  specification expects \<^verbatim>\<open>4.5.6\<close>: the text of the second pattern starts with \<^verbatim>\<open>(?i)\<close>, so it holds
  an opening parenthesis and the pattern goes through \<^verbatim>\<open>FindStringSubmatch\<close>, which has no
  capture group to return; the loop moves on, and the third pattern returns its match
  with the leading \<^verbatim>\<open>v\<close>.
\<close>

theorem extractVersion_samples:
  "map extractVersion
     [''version v1.2.3'', ''amass - v4.5.6'', ''go1.23.3 linux/amd64'', ''Version: v2.0.0'',
      ''hello world'', '''']
   = [''v1.2.3'', ''v4.5.6'', ''1.23.3'', ''v2.0.0'', ''hello world'', '''']"
  by code_simp

lemma captures_no_Close: "Close \<notin> set items \<Longrightarrow> captures items ps cur = []"
  by (induction items ps cur rule: captures.induct) auto

lemma compiled_amass:
  "MustCompile (patterns ! 1) =
     [One (LitFold CHR ''a''), One (LitFold CHR ''m''), One (LitFold CHR ''a''),
      One (LitFold CHR ''s''), One (LitFold CHR ''s''), Plus Space, One (LitFold CHR ''-''),
      Plus Space, One (LitFold CHR ''v''), Plus Digit, One (LitFold CHR ''.''), Plus Digit,
      One (LitFold CHR ''.''), Plus Digit]"
  by code_simp

lemma amass_submatch_short: "length (FindStringSubmatch (MustCompile (patterns ! 1)) v) \<le> 1"
proof -
  have "Close \<notin> set (MustCompile (patterns ! 1))"
    unfolding compiled_amass by simp
  then have "\<And>ps. captures (MustCompile (patterns ! 1)) ps [] = []"
    by (rule captures_no_Close)
  then show ?thesis
    by (cases "search (MustCompile (patterns ! 1)) v") (simp_all add: FindStringSubmatch_def)
qed

text \<open>
  C5. The specification says that an output which the second pattern matches (and the first does
  not) gives the match without \<^verbatim>\<open>amass - \<close> and without the leading \<^verbatim>\<open>v\<close>. On the code, the
  second pattern never returns, whatever the text: its branch asks for a capture group
  that the pattern does not have. On the output \<^verbatim>\<open>OWASP Amass  -  v3.1.0\<close>, which the second
  pattern matches, \<^verbatim>\<open>extractVersion\<close> gives \<^verbatim>\<open>v3.1.0\<close>, with the leading \<^verbatim>\<open>v\<close>.
\<close>

theorem amass_pattern_never_returns:
  "tryPatterns [patterns ! 1] input = None
   \<and> FindString (MustCompile (patterns ! 1)) ''OWASP Amass  -  v3.1.0'' = ''Amass  -  v3.1.0''
   \<and> extractVersion ''OWASP Amass  -  v3.1.0'' = ''v3.1.0''"
proof -
  have "tryPatterns [patterns ! 1] input = None"
    using amass_submatch_short [of input] has_paren(2) by simp
  moreover have "FindString (MustCompile (patterns ! 1)) ''OWASP Amass  -  v3.1.0'' = ''Amass  -  v3.1.0''"
    by code_simp
  moreover have "extractVersion ''OWASP Amass  -  v3.1.0'' = ''v3.1.0''"
    by code_simp
  ultimately show ?thesis by blast
qed

section \<open>Properties of the tool detector\<close>

text \<open>
  C6. When the lookup of a tool among the tools gives the nil pointer (the tool has no
  entry, or the map is absent), \<^verbatim>\<open>getToolVersion\<close> panics with a nil pointer dereference;
  and \<^verbatim>\<open>checkTool\<close> panics exactly when the tool is on the search path and its lookup
  gives the nil pointer, so detection returns for every tool on the search path only
  when each of them has an entry.
\<close>

theorem nil_tool_config_panics:
  "(Tools cfg name = None \<longrightarrow> getToolVersion sys cfg name st = (Inl NilPointerDereference, st))
   \<and> ((fst (checkTool sys cfg name st) = Inl NilPointerDereference)
        = (LookPath sys (history st) name \<and> Tools cfg name = None))"
proof -
  have a: "Tools cfg name = None \<longrightarrow> getToolVersion sys cfg name st = (Inl NilPointerDereference, st)"
    by (simp add: getToolVersion_def)
  have b: "Tools cfg name \<noteq> None \<Longrightarrow> \<exists>v. fst (getToolVersion sys cfg name st) = Inr v"
    by (auto simp: getToolVersion_def split: prod.splits simp del: probeFlags.simps)
  obtain r st' where g: "getToolVersion sys cfg name st = (r, st')"
    by (cases "getToolVersion sys cfg name st")
  have c: "(fst (checkTool sys cfg name st) = Inl NilPointerDereference)
        = (LookPath sys (history st) name \<and> Tools cfg name = None)"
  proof (cases "LookPath sys (history st) name")
    case False
    then show ?thesis by (simp add: checkTool_def)
  next
    case True
    show ?thesis
    proof (cases "Tools cfg name")
      case None
      with True a show ?thesis by (simp add: checkTool_def)
    next
      case (Some tc)
      with b g obtain v where "r = Inr v" by auto
      with True g Some show ?thesis by (simp add: checkTool_def)
    qed
  qed
  from a c show ?thesis by blast
qed

theorem nil_tool_config_panics_witness:
  "Tools gitConfig ''git'' = None
   \<and> LookPath gitMachine (history start) ''git''
   \<and> getToolVersion gitMachine gitConfig ''git'' start = (Inl NilPointerDereference, start)
   \<and> fst (checkTool gitMachine gitConfig ''git'' start) = Inl NilPointerDereference"
proof -
  have n: "Tools gitConfig ''git'' = None" by code_simp
  have l: "LookPath gitMachine (history start) ''git''" by code_simp
  show ?thesis
    using n l nil_tool_config_panics [of gitConfig "''git''" gitMachine start] by simp
qed

text \<open>
  C7. For a tool whose entry declares a non-empty fixed version, \<^verbatim>\<open>getToolVersion\<close>
  returns that version as it is and runs nothing: the state, and with it the history
  of the processes run, is unchanged. \<^verbatim>\<open>checkTool\<close> leaves the history unchanged as well,
  and for a tool on the search path it reports the tool installed with that version.
\<close>

theorem fixed_version_verbatim:
  assumes "Tools cfg name = Some tc" and "Version tc \<noteq> []"
  shows "getToolVersion sys cfg name st = (Inr (Version tc), st)
    \<and> history (snd (checkTool sys cfg name st)) = history st
    \<and> (LookPath sys (history st) name \<longrightarrow>
         checkTool sys cfg name st = (Inr True, print (Installed name (Version tc)) st))"
  using assms by (simp add: getToolVersion_def checkTool_def print_def)

theorem fixed_version_verbatim_witness:
  "Tools goConfig ''go'' \<noteq> None
   \<and> getToolVersion goMachine goConfig ''go'' start = (Inr ''1.23.3'', start)
   \<and> checkTool goMachine goConfig ''go'' start = (Inr True, print (Installed ''go'' ''1.23.3'') start)"
proof -
  have t: "Tools goConfig ''go'' =
      Some \<lparr>Dependencies = [], Version = ''1.23.3'', VersionFlag = [],
         Methods = [\<lparr>Name = ''binary'', Commands = [''tar -xzf go${version}.tar.gz'']\<rparr>]\<rparr>"
    by (simp add: goConfig_def)
  have l: "LookPath goMachine (history start) ''go''" by code_simp
  show ?thesis
    using t l fixed_version_verbatim [OF t, of goMachine start] by simp
qed

section \<open>Properties of the installer driver\<close>

text \<open>
  C1. The specification says that an installation is reported as succeeded only after every
  command of the method has run and exited zero. On the code, \<^verbatim>\<open>return nil\<close> stands inside
  the loop over the commands: for a method with the commands \<^verbatim>\<open>c1\<close> and \<^verbatim>\<open>c2\<close>, both of
  which would exit zero, \<^verbatim>\<open>installTool\<close> returns the nil error after \<^verbatim>\<open>c1\<close>, and \<^verbatim>\<open>c2\<close> is
  never run.
\<close>

theorem installTool_returns_after_first_success:
  "installTool quiet alphaConfig ''alpha'' start =
     (None,
      \<lparr>history = [Command ''alpha'' ''m'' [''c1''] ExitZero],
       printed = [Installing ''alpha'' ''m'']\<rparr>)"
  by code_simp

text \<open>
  C2. The specification says that after a command that fails to spawn or exits non-zero, no
  later command of the same method is run. On the code, the failure is followed by
  \<^verbatim>\<open>continue\<close> in the loop over the commands: for a method with the commands \<^verbatim>\<open>c1\<close> and
  \<^verbatim>\<open>c2\<close>, where \<^verbatim>\<open>c1\<close> exits non-zero (first line) or fails to spawn (second line), \<^verbatim>\<open>c2\<close> is
  run under the same method, and its exit zero has the installation reported as
  succeeded.
\<close>

theorem installTool_continues_after_failure:
  "installTool (failingFirst WaitError) alphaConfig ''alpha'' start =
     (None,
      \<lparr>history = [Command ''alpha'' ''m'' [''c1''] WaitError,
                  Command ''alpha'' ''m'' [''c2''] ExitZero],
       printed = [Installing ''alpha'' ''m'', FailedCommand ''alpha'']\<rparr>)
   \<and> installTool (failingFirst StartError) alphaConfig ''alpha'' start =
     (None,
      \<lparr>history = [Command ''alpha'' ''m'' [''c1''] StartError,
                  Command ''alpha'' ''m'' [''c2''] ExitZero],
       printed = [Installing ''alpha'' ''m'', FailedToStart ''c1'']\<rparr>)"
  by code_simp

text \<open>
  C3. The specification says that the placeholder \<^verbatim>\<open>${version}\<close> of a command is replaced by the
  fixed version of the tool. On the code, \<^verbatim>\<open>os.ExpandEnv\<close> runs first and reads
  \<^verbatim>\<open>${version}\<close> as the environment variable \<^verbatim>\<open>version\<close>; when that variable is not set the
  placeholder becomes the empty string, and \<^verbatim>\<open>strings.ReplaceAll\<close> finds nothing to
  replace. With the version 1.23.3 and the command \<^verbatim>\<open>tar -xzf go${version}.tar.gz\<close>, the
  command that is run has the argument \<^verbatim>\<open>go.tar.gz\<close>, not \<^verbatim>\<open>go1.23.3.tar.gz\<close>.
\<close>

theorem version_placeholder_lost:
  "installTool quiet goConfig ''go'' start =
     (None,
      \<lparr>history = [Command ''go'' ''binary'' [''tar'', ''-xzf'', ''go.tar.gz''] ExitZero],
       printed = [Installing ''go'' ''binary'']\<rparr>)"
  by code_simp

text \<open>
  C8. The specification says that the process always goes once through the whole tool list and
  exits with code 0 once the configuration is loaded. On the code, a tool that is on the
  search path and has no entry among the tools makes \<^verbatim>\<open>getToolVersion\<close> panic: with the
  tool list \<^verbatim>\<open>git\<close>, \<^verbatim>\<open>alpha\<close>, no entry for \<^verbatim>\<open>git\<close>, and \<^verbatim>\<open>git\<close> on the search path, the
  process ends in the panic after the header line, before \<^verbatim>\<open>alpha\<close> is looked at and
  without a summary.
\<close>

theorem main_panics_on_missing_entry:
  "main gitMachine (Inr gitConfig) start =
     (Panicked NilPointerDereference, \<lparr>history = [], printed = [Header]\<rparr>)"
  by code_simp

subsection \<open>Tools on the search path are not installed\<close>





























end
